theory Spec2Isabelle
  imports Main
begin

section \<open>Python values and exceptions\<close>

text \<open>
  The two extraction steps receive the language model's structured output: lists of
  JSON-like Python values. A value is \<open>None\<close>, a boolean, an integer, a string, a list
  or a dictionary keyed by strings (a JSON object). Floating-point numbers are left out.
\<close>

datatype pyval =
    PNone
  | PBool bool
  | PInt int
  | PStr string
  | PList "pyval list"
  | PDict "(string \<times> pyval) list"

text \<open>
  The exceptions that occur in the two functions. \<open>OtherException\<close> stands for any
  further subclass of \<open>Exception\<close> the model call may raise, with its message.
\<close>

datatype pyexn =
    ValidationError
  | KeyError
  | TypeError
  | AttributeError
  | OtherException string

text \<open>Each call of \<open>warnings.warn\<close> appends one entry to the log of warnings.\<close>

datatype warning =
    ExtractionFailed pyexn
  | InvalidEntity pyval
  | InvalidRelation pyval

text \<open>Truth value of a Python object, as tested by \<open>if x:\<close>.\<close>

fun truthy :: "pyval \<Rightarrow> bool" where
  "truthy PNone = False"
| "truthy (PBool b) = b"
| "truthy (PInt i) = (i \<noteq> 0)"
| "truthy (PStr s) = (s \<noteq> [])"
| "truthy (PList xs) = (xs \<noteq> [])"
| "truthy (PDict d) = (d \<noteq> [])"

text \<open>
  \<open>if node_types:\<close> on an \<open>Optional[List[str]]\<close>: false for \<open>None\<close> and for the empty list.
\<close>

fun types_given :: "string list option \<Rightarrow> bool" where
  "types_given None = False"
| "types_given (Some ts) = (ts \<noteq> [])"

text \<open>\<open>item[key]\<close> with a string key: only a dictionary can be subscripted that way.\<close>

fun getitem :: "pyval \<Rightarrow> string \<Rightarrow> pyexn + pyval" where
  "getitem (PDict d) k = (case map_of d k of None \<Rightarrow> Inl KeyError | Some v \<Rightarrow> Inr v)"
| "getitem _ k = Inl TypeError"

text \<open>\<open>item.get(key)\<close>: the value, or \<open>None\<close> when the key is absent.\<close>

fun py_get :: "pyval \<Rightarrow> string \<Rightarrow> pyexn + pyval" where
  "py_get (PDict d) k = Inr (case map_of d k of None \<Rightarrow> PNone | Some v \<Rightarrow> v)"
| "py_get _ k = Inl AttributeError"

subsection \<open>Dictionaries built by the functions\<close>

text \<open>
  A dictionary under construction is an association list in insertion order. Storing
  under a key that is already present replaces the value and keeps the key and its
  position; a new key goes to the end.
\<close>

fun hashable :: "pyval \<Rightarrow> bool" where
  "hashable (PList xs) = False"
| "hashable (PDict d) = False"
| "hashable _ = True"

text \<open>Equality of hashable keys: \<open>True == 1\<close> and \<open>False == 0\<close> in Python.\<close>

fun key_eq :: "pyval \<Rightarrow> pyval \<Rightarrow> bool" where
  "key_eq (PBool b) (PInt i) = (i = (if b then 1 else 0))"
| "key_eq (PInt i) (PBool b) = (i = (if b then 1 else 0))"
| "key_eq a b = (a = b)"

fun dict_store :: "('k \<Rightarrow> 'k \<Rightarrow> bool) \<Rightarrow> ('k \<times> 'v) list \<Rightarrow> 'k \<Rightarrow> 'v \<Rightarrow> ('k \<times> 'v) list" where
  "dict_store eq [] k v = [(k, v)]"
| "dict_store eq ((k', v') # m) k v =
     (if eq k' k then (k', v) # m else (k', v') # dict_store eq m k v)"

text \<open>\<open>d[key] = value\<close> for an arbitrary key object: an unhashable key raises.\<close>

definition setitem :: "(pyval \<times> pyval) list \<Rightarrow> pyval \<Rightarrow> pyval \<Rightarrow> pyexn + (pyval \<times> pyval) list" where
  "setitem d k v = (if hashable k then Inr (dict_store key_eq d k v) else Inl TypeError)"

section \<open>The prompting framework\<close>

text \<open>The eight prompt schemas (subclasses of \<open>dspy.Signature\<close>).\<close>

datatype signature =
    TextEntities
  | ConversationEntities
  | TextEntitiesWithTypes
  | ConversationEntitiesWithTypes
  | ExtractTextRelations
  | ExtractConversationRelations
  | ExtractTextRelationsWithTypes
  | ExtractConversationRelationsWithTypes

text \<open>A \<open>dspy.Example\<close>: an object built from keyword arguments, read by attribute.\<close>

datatype example = Example "(string \<times> pyval) list"

fun example_attr :: "example \<Rightarrow> string \<Rightarrow> pyexn + pyval" where
  "example_attr (Example kw) k =
     (case map_of kw k of None \<Rightarrow> Inl AttributeError | Some v \<Rightarrow> Inr v)"

text \<open>A keyword parameter of the model call: a value, or the list of demonstrations.\<close>

datatype param = Value pyval | Demos "example list"

type_synonym params = "(string \<times> param) list"

text \<open>
  The \<open>dspy\<close> argument: \<open>dspy.Predict(Signature)(**params)\<close> either raises or returns an
  object whose declared output field (\<open>entities\<close>, \<open>relations\<close>) is a list of items.
\<close>

type_synonym dspy_module = "signature \<Rightarrow> params \<Rightarrow> pyexn + pyval list"

text \<open>
  The list comprehension building \<open>params["demos"]\<close>: every example is rebuilt from its
  \<open>source_text\<close> attribute and its output attribute (\<open>entities\<close> or \<open>relations\<close>). A
  missing attribute raises, outside the \<open>try\<close> block.
\<close>

fun make_demos :: "string \<Rightarrow> example list \<Rightarrow> pyexn + example list" where
  "make_demos field [] = Inr []"
| "make_demos field (ex # rest) =
     (case example_attr ex ''source_text'' of
        Inl e \<Rightarrow> Inl e
      | Inr st \<Rightarrow>
          (case example_attr ex field of
             Inl e \<Rightarrow> Inl e
           | Inr out \<Rightarrow>
               (case make_demos field rest of
                  Inl e \<Rightarrow> Inl e
                | Inr ds \<Rightarrow> Inr (Example [(''source_text'', st), (field, out)] # ds))))"

text \<open>\<open>if examples: params["demos"] = [...]\<close>.\<close>

fun add_demos :: "string \<Rightarrow> example list option \<Rightarrow> params \<Rightarrow> pyexn + params" where
  "add_demos field None ps = Inr ps"
| "add_demos field (Some exs) ps =
     (if exs = [] then Inr ps
      else (case make_demos field exs of
              Inl e \<Rightarrow> Inl e
            | Inr ds \<Rightarrow> Inr (ps @ [(''demos'', Demos ds)])))"

section \<open>Step 1: get_entities\<close>

definition entities_signature :: "bool \<Rightarrow> string list option \<Rightarrow> signature" where
  "entities_signature is_conversation node_types =
     (if types_given node_types
      then (if is_conversation then ConversationEntitiesWithTypes else TextEntitiesWithTypes)
      else (if is_conversation then ConversationEntities else TextEntities))"

definition entities_params :: "string \<Rightarrow> string list option \<Rightarrow> bool \<Rightarrow> params" where
  "entities_params input_data node_types require_node_type =
     (case node_types of
        None \<Rightarrow> [(''source_text'', Value (PStr input_data))]
      | Some ts \<Rightarrow>
          if ts \<noteq> []
          then [(''source_text'', Value (PStr input_data)),
                (''node_types'', Value (PList (map PStr ts))),
                (''require_type'', Value (PBool require_node_type))]
          else [(''source_text'', Value (PStr input_data))])"

text \<open>
  The loop over \<open>result.entities\<close> of the typed path, with the accumulators
  \<open>entities\<close>, \<open>entity_types\<close> and the warnings issued so far. The handler for
  \<open>ValidationError\<close> warns; the handler for every other exception skips the item
  silently. An exception after the \<open>try\<close> block leaves the function.
\<close>

fun entities_loop ::
  "pyval list \<Rightarrow> pyval list \<Rightarrow> (pyval \<times> pyval) list \<Rightarrow> warning list \<Rightarrow>
   warning list \<times> (pyexn + pyval list \<times> (pyval \<times> pyval) list)" where
  "entities_loop [] entities entity_types ws = (ws, Inr (entities, entity_types))"
| "entities_loop (item # rest) entities entity_types ws =
     (case getitem item ''entity'' of
        Inl e \<Rightarrow>
          if e = ValidationError
          then entities_loop rest entities entity_types (ws @ [InvalidEntity item])
          else entities_loop rest entities entity_types ws
      | Inr entity \<Rightarrow>
          (case py_get item ''type'' of
             Inl e \<Rightarrow> (ws, Inl e)
           | Inr t \<Rightarrow>
               if truthy t
               then (case getitem item ''type'' of
                       Inl e \<Rightarrow> (ws, Inl e)
                     | Inr ty \<Rightarrow>
                         (case setitem entity_types entity ty of
                            Inl e \<Rightarrow> (ws, Inl e)
                          | Inr entity_types' \<Rightarrow>
                              entities_loop rest (entities @ [entity]) entity_types' ws))
               else entities_loop rest (entities @ [entity]) entity_types ws))"

text \<open>
  The result of a call: the warnings issued, and either the exception that left the
  function or the returned pair (entity list, optional entity-to-type dictionary).
\<close>

definition get_entities ::
  "dspy_module \<Rightarrow> string \<Rightarrow> bool \<Rightarrow> string list option \<Rightarrow> bool \<Rightarrow> example list option \<Rightarrow>
   warning list \<times> (pyexn + pyval list \<times> (pyval \<times> pyval) list option)" where
  "get_entities dspy input_data is_conversation node_types require_node_type examples =
     (case add_demos ''entities'' examples
             (entities_params input_data node_types require_node_type) of
        Inl e \<Rightarrow> ([], Inl e)
      | Inr ps \<Rightarrow>
          (case dspy (entities_signature is_conversation node_types) ps of
             Inl e \<Rightarrow> ([ExtractionFailed e], Inr ([], None))
           | Inr result_entities \<Rightarrow>
               if types_given node_types
               then (case entities_loop result_entities [] [] [] of
                       (ws, Inl e) \<Rightarrow> (ws, Inl e)
                     | (ws, Inr (entities, entity_types)) \<Rightarrow>
                         (ws, Inr (entities, Some entity_types)))
               else ([], Inr (result_entities, None))))"

section \<open>Step 2: get_relations\<close>

text \<open>
  A validated relation. For the plain \<open>Relation\<close> model the field \<open>predicate_type\<close> does
  not exist; it is never read then, and is \<open>None\<close> in this record.
\<close>

record relation =
  subject :: string
  predicate :: string
  object :: string
  predicate_type :: "string option"

text \<open>
  Validation by the pydantic model class: a required field of type \<open>str\<close> must be
  present and a string; an \<open>Optional[str]\<close> field with default \<open>None\<close> may be absent,
  \<open>None\<close> or a string. Keys that are not fields are ignored.
\<close>

definition required_str :: "(string \<times> pyval) list \<Rightarrow> string \<Rightarrow> string option" where
  "required_str d k = (case map_of d k of Some (PStr s) \<Rightarrow> Some s | _ \<Rightarrow> None)"

definition optional_str :: "(string \<times> pyval) list \<Rightarrow> string \<Rightarrow> string option option" where
  "optional_str d k =
     (case map_of d k of
        None \<Rightarrow> Some None
      | Some PNone \<Rightarrow> Some None
      | Some (PStr s) \<Rightarrow> Some (Some s)
      | _ \<Rightarrow> None)"

text \<open>\<open>Relation(**item)\<close>: unpacking anything but a dictionary is a \<open>TypeError\<close>.\<close>

fun Relation :: "pyval \<Rightarrow> pyexn + relation" where
  "Relation (PDict d) =
     (case required_str d ''subject'' of
        None \<Rightarrow> Inl ValidationError
      | Some s \<Rightarrow>
          (case required_str d ''predicate'' of
             None \<Rightarrow> Inl ValidationError
           | Some p \<Rightarrow>
               (case required_str d ''object'' of
                  None \<Rightarrow> Inl ValidationError
                | Some ob \<Rightarrow>
                    Inr \<lparr>subject = s, predicate = p, object = ob, predicate_type = None\<rparr>)))"
| "Relation _ = Inl TypeError"

text \<open>\<open>RelationWithType(**item)\<close>.\<close>

fun RelationWithType :: "pyval \<Rightarrow> pyexn + relation" where
  "RelationWithType (PDict d) =
     (case Relation (PDict d) of
        Inl e \<Rightarrow> Inl e
      | Inr rel \<Rightarrow>
          (case optional_str d ''predicate_type'' of
             None \<Rightarrow> Inl ValidationError
           | Some pt \<Rightarrow> Inr (rel\<lparr>predicate_type := pt\<rparr>)))"
| "RelationWithType _ = Inl TypeError"

definition relations_signature :: "bool \<Rightarrow> string list option \<Rightarrow> signature" where
  "relations_signature is_conversation edge_types =
     (if types_given edge_types
      then (if is_conversation then ExtractConversationRelationsWithTypes
            else ExtractTextRelationsWithTypes)
      else (if is_conversation then ExtractConversationRelations else ExtractTextRelations))"

definition relations_params ::
  "string \<Rightarrow> pyval list \<Rightarrow> string list option \<Rightarrow> bool \<Rightarrow> params" where
  "relations_params input_data entities edge_types require_edge_type =
     (case edge_types of
        None \<Rightarrow> [(''source_text'', Value (PStr input_data)),
                 (''entities'', Value (PList entities))]
      | Some ts \<Rightarrow>
          if ts \<noteq> []
          then [(''source_text'', Value (PStr input_data)),
                (''entities'', Value (PList entities)),
                (''edge_types'', Value (PList (map PStr ts))),
                (''require_type'', Value (PBool require_edge_type))]
          else [(''source_text'', Value (PStr input_data)),
                (''entities'', Value (PList entities))])"

text \<open>
  The \<open>try\<close> block of the loop: the model class is chosen by the truth value of
  \<open>edge_types\<close>.
\<close>

definition model_validate :: "bool \<Rightarrow> pyval \<Rightarrow> pyexn + relation" where
  "model_validate typed item = (if typed then RelationWithType item else Relation item)"

text \<open>
  The loop over \<open>result.relations\<close>, with the accumulators \<open>relations\<close>,
  \<open>edge_type_map\<close> and the warnings issued so far. \<open>typed\<close> is the truth value of
  \<open>edge_types\<close>. Membership of a string in \<open>entities\<close> is equality with an element;
  \<open>edge_types and rel.predicate_type\<close> holds for a non-empty type string.
\<close>

fun relations_loop ::
  "bool \<Rightarrow> pyval list \<Rightarrow> pyval list \<Rightarrow> (string \<times> string \<times> string) list \<Rightarrow>
   (string \<times> string) list \<Rightarrow> warning list \<Rightarrow>
   (string \<times> string \<times> string) list \<times> (string \<times> string) list \<times> warning list" where
  "relations_loop typed entities [] relations edge_type_map ws =
     (relations, edge_type_map, ws)"
| "relations_loop typed entities (item # rest) relations edge_type_map ws =
     (case model_validate typed item of
        Inl e \<Rightarrow>
          if e = ValidationError
          then relations_loop typed entities rest relations edge_type_map
                 (ws @ [InvalidRelation item])
          else relations_loop typed entities rest relations edge_type_map ws
      | Inr rel \<Rightarrow>
          if PStr (subject rel) \<in> set entities \<and> PStr (object rel) \<in> set entities
          then relations_loop typed entities rest
                 (relations @ [(subject rel, predicate rel, object rel)])
                 (if typed
                  then (case predicate_type rel of
                          None \<Rightarrow> edge_type_map
                        | Some t \<Rightarrow>
                            if t \<noteq> [] then dict_store (=) edge_type_map (predicate rel) t
                            else edge_type_map)
                  else edge_type_map)
                 ws
          else relations_loop typed entities rest relations edge_type_map ws)"

definition get_relations ::
  "dspy_module \<Rightarrow> string \<Rightarrow> pyval list \<Rightarrow> bool \<Rightarrow> string list option \<Rightarrow> bool \<Rightarrow>
   example list option \<Rightarrow>
   warning list \<times> (pyexn + (string \<times> string \<times> string) list \<times> (string \<times> string) list option)" where
  "get_relations dspy input_data entities is_conversation edge_types require_edge_type examples =
     (case add_demos ''relations'' examples
             (relations_params input_data entities edge_types require_edge_type) of
        Inl e \<Rightarrow> ([], Inl e)
      | Inr ps \<Rightarrow>
          (case dspy (relations_signature is_conversation edge_types) ps of
             Inl e \<Rightarrow> ([ExtractionFailed e], Inr ([], None))
           | Inr result_relations \<Rightarrow>
               (case relations_loop (types_given edge_types) entities result_relations [] [] [] of
                  (relations, edge_type_map, ws) \<Rightarrow>
                    (ws, Inr (relations,
                              if types_given edge_types then Some edge_type_map else None)))))"

text \<open>
  The output field of every schema is declared \<open>list[dict]\<close>: a well-typed item is a
  dictionary.
\<close>

fun is_dict :: "pyval \<Rightarrow> bool" where
  "is_dict (PDict d) = True"
| "is_dict _ = False"

subsection \<open>The expected schema, in the specification's words\<close>







section \<open>Properties of the loops\<close>





lemma relations_loop_relations:
  "fst (relations_loop typed entities items relations edge_type_map ws) =
     relations @ [(subject rel, predicate rel, object rel).
                    item \<leftarrow> items,
                    rel \<leftarrow> (case model_validate typed item of Inl e \<Rightarrow> [] | Inr rel \<Rightarrow> [rel]),
                    PStr (subject rel) \<in> set entities \<and> PStr (object rel) \<in> set entities]"
  by (induction items arbitrary: relations edge_type_map ws) (auto split: sum.splits)

text \<open>Storing into a dictionary adds at most the stored key and the stored value.\<close>

lemma dict_store_eq_set:
  "(k, v) \<in> set (dict_store (=) m k' v') \<Longrightarrow> (k, v) \<in> set m \<or> (k = k' \<and> v = v')"
  by (induction m) (auto split: if_splits)

lemma dict_store_keys:
  "(a, b) \<in> set (dict_store eq m k v) \<Longrightarrow> a = k \<or> a \<in> fst ` set m"
  by (induction m) (force split: if_splits)+

text \<open>Every key of \<open>entity_types\<close> has been appended to \<open>entities\<close>.\<close>

lemma entities_loop_keys:
  "entities_loop items entities entity_types ws = (ws', Inr (entities', entity_types')) \<Longrightarrow>
   fst ` set entity_types \<subseteq> set entities \<Longrightarrow>
   fst ` set entity_types' \<subseteq> set entities'"
proof (induction items arbitrary: entities entity_types ws)
  case Nil
  then show ?case by simp
next
  case (Cons item rest)
  show ?case
  proof (cases "getitem item ''entity''")
    case (Inl e)
    with Cons show ?thesis by (simp split: if_splits)
  next
    case (Inr entity)
    show ?thesis
    proof (cases "py_get item ''type''")
      case (Inl e)
      with Inr Cons.prems show ?thesis by simp
    next
      case t: (Inr t)
      show ?thesis
      proof (cases "truthy t")
        case False
        with Inr t Cons.prems have
          "entities_loop rest (entities @ [entity]) entity_types ws = (ws', Inr (entities', entity_types'))"
          by simp
        moreover from Cons.prems have "fst ` set entity_types \<subseteq> set (entities @ [entity])" by auto
        ultimately show ?thesis by (rule Cons.IH)
      next
        case True
        with Inr t Cons.prems obtain ty m where
          m: "setitem entity_types entity ty = Inr m" and
          run: "entities_loop rest (entities @ [entity]) m ws = (ws', Inr (entities', entity_types'))"
          by (auto split: sum.splits)
        from m have "m = dict_store key_eq entity_types entity ty"
          by (simp add: setitem_def split: if_splits)
        with Cons.prems(2) have "fst ` set m \<subseteq> set (entities @ [entity])"
          by (auto dest!: dict_store_keys)
        with run show ?thesis by (rule Cons.IH)
      qed
    qed
  qed
qed

text \<open>The entity loop never issues a warning: subscripting raises no validation error.\<close>

lemma entities_loop_no_warning:
  "fst (entities_loop items entities entity_types ws) = ws"
proof (induction items arbitrary: entities entity_types ws)
  case Nil
  then show ?case by simp
next
  case (Cons item rest)
  have "getitem item ''entity'' \<noteq> Inl ValidationError"
    by (cases item) (auto split: option.splits)
  with Cons show ?case
    by (auto split: sum.splits simp: setitem_def)
qed

text \<open>The two ways in which \<open>get_relations\<close> returns.\<close>

lemma get_relations_returns:
  assumes "get_relations dspy input_data entities is_conversation edge_types
             require_edge_type examples = (ws, Inr (relations, edge_type_map))"
  shows "(\<exists>ps e.
            add_demos ''relations'' examples
              (relations_params input_data entities edge_types require_edge_type) = Inr ps
            \<and> dspy (relations_signature is_conversation edge_types) ps = Inl e
            \<and> ws = [ExtractionFailed e] \<and> relations = [] \<and> edge_type_map = None)
       \<or> (\<exists>ps items m.
            add_demos ''relations'' examples
              (relations_params input_data entities edge_types require_edge_type) = Inr ps
            \<and> dspy (relations_signature is_conversation edge_types) ps = Inr items
            \<and> relations_loop (types_given edge_types) entities items [] [] [] = (relations, m, ws)
            \<and> edge_type_map = (if types_given edge_types then Some m else None))"
  using assms unfolding get_relations_def
  by (auto split: sum.splits prod.splits)

text \<open>
  An item that is not a dictionary leaves the relation loop's state unchanged: it is
  skipped by the silent handler.
\<close>

lemma non_dict_item_skipped_silently:
  "\<not> is_dict item \<Longrightarrow>
   relations_loop typed entities [item] relations edge_type_map ws
     = (relations, edge_type_map, ws)"
  by (cases item) (simp_all add: model_validate_def)

text \<open>
  Every entry of \<open>edge_type_map\<close> was there before the loop or stems from a validated
  item of the typed path that carries a non-empty predicate type and passes the
  membership test.
\<close>

lemma relations_loop_types:
  "relations_loop typed entities items relations m ws = (relations', m', ws') \<Longrightarrow>
   (p, t) \<in> set m' \<Longrightarrow>
   (p, t) \<in> set m \<or>
   (typed \<and> (\<exists>item \<in> set items. \<exists>rel.
      model_validate typed item = Inr rel \<and> predicate rel = p \<and>
      predicate_type rel = Some t \<and> t \<noteq> [] \<and>
      PStr (subject rel) \<in> set entities \<and> PStr (object rel) \<in> set entities))"
proof (induction items arbitrary: relations m ws)
  case Nil
  then show ?case by simp
next
  case (Cons item rest)
  show ?case
  proof (cases "model_validate typed item")
    case (Inl e)
    with Cons.prems have "\<exists>ws0. relations_loop typed entities rest relations m ws0 = (relations', m', ws')"
      by (auto split: if_splits)
    then obtain ws0 where "relations_loop typed entities rest relations m ws0 = (relations', m', ws')" ..
    from Cons.IH [OF this Cons.prems(2)] show ?thesis by auto
  next
    case (Inr rel)
    show ?thesis
    proof (cases "PStr (subject rel) \<in> set entities \<and> PStr (object rel) \<in> set entities")
      case False
      with Inr Cons.prems have "relations_loop typed entities rest relations m ws = (relations', m', ws')"
        by auto
      from Cons.IH [OF this Cons.prems(2)] show ?thesis by auto
    next
      case True
      define m1 where "m1 =
        (if typed
         then (case predicate_type rel of
                 None \<Rightarrow> m
               | Some t \<Rightarrow> if t \<noteq> [] then dict_store (=) m (predicate rel) t else m)
         else m)"
      from True Inr Cons.prems have
        "relations_loop typed entities rest
           (relations @ [(subject rel, predicate rel, object rel)]) m1 ws = (relations', m', ws')"
        by (simp add: m1_def)
      from Cons.IH [OF this Cons.prems(2)] consider "(p, t) \<in> set m1"
        | "typed \<and> (\<exists>item \<in> set rest. \<exists>rel.
            model_validate typed item = Inr rel \<and> predicate rel = p \<and>
            predicate_type rel = Some t \<and> t \<noteq> [] \<and>
            PStr (subject rel) \<in> set entities \<and> PStr (object rel) \<in> set entities)"
        by blast
      then show ?thesis
      proof cases
        case 2
        then show ?thesis by auto
      next
        case 1
        show ?thesis
        proof (cases "(p, t) \<in> set m")
          case True
          then show ?thesis by simp
        next
          case False
          with 1 have "typed \<and> predicate_type rel = Some t \<and> t \<noteq> [] \<and> predicate rel = p"
            by (auto simp: m1_def split: if_splits option.splits dest: dict_store_eq_set)
          with True Inr show ?thesis by auto
        qed
      qed
    qed
  qed
qed







section \<open>The claims\<close>

text \<open>
  C1. Whenever \<open>get_relations\<close> returns, every triple of the returned relation list has
  its subject and its object among the elements of the supplied entity list.
\<close>

theorem get_relations_endpoints_in_entities:
  assumes "get_relations dspy input_data entities is_conversation edge_types
             require_edge_type examples = (ws, Inr (relations, edge_type_map))"
    and "(s, p, ob) \<in> set relations"
  shows "PStr s \<in> set entities \<and> PStr ob \<in> set entities"
proof -
  from get_relations_returns [OF assms(1)] assms(2) obtain items m where
    "relations_loop (types_given edge_types) entities items [] [] [] = (relations, m, ws)"
    by auto
  then have "relations = fst (relations_loop (types_given edge_types) entities items [] [] [])"
    by simp
  with assms(2) show ?thesis
    unfolding relations_loop_relations by auto
qed

theorem get_relations_endpoints_in_entities_witness:
  "get_relations
     (\<lambda>sg ps. Inr [PDict [(''subject'', PStr ''Alice''), (''predicate'', PStr ''knows''),
                          (''object'', PStr ''Bob'')],
                   PDict [(''subject'', PStr ''Alice''), (''predicate'', PStr ''knows''),
                          (''object'', PStr ''Carol'')]])
     ''Alice knows Bob and Carol.'' [PStr ''Alice'', PStr ''Bob''] False None True None
   = ([], Inr ([(''Alice'', ''knows'', ''Bob'')], None))
   \<and> PStr ''Alice'' \<in> set [PStr ''Alice'', PStr ''Bob'']
   \<and> PStr ''Bob'' \<in> set [PStr ''Alice'', PStr ''Bob'']"
proof -
  have run: "get_relations
     (\<lambda>sg ps. Inr [PDict [(''subject'', PStr ''Alice''), (''predicate'', PStr ''knows''),
                          (''object'', PStr ''Bob'')],
                   PDict [(''subject'', PStr ''Alice''), (''predicate'', PStr ''knows''),
                          (''object'', PStr ''Carol'')]])
     ''Alice knows Bob and Carol.'' [PStr ''Alice'', PStr ''Bob''] False None True None
   = ([], Inr ([(''Alice'', ''knows'', ''Bob'')], None))"
    by (simp add: get_relations_def relations_params_def relations_signature_def
          model_validate_def required_str_def)
  have mem: "(''Alice'', ''knows'', ''Bob'') \<in> set [(''Alice'', ''knows'', ''Bob'')]"
    by simp
  from get_relations_endpoints_in_entities [OF run mem] run show ?thesis
    by blast
qed

text \<open>
  C2. If the model call raises, \<open>get_entities\<close> returns the empty list with \<open>None\<close> as
  type mapping and issues exactly one warning; \<open>get_relations\<close> does the same. (The parameters
  \<open>ps\<close> are those built before the call, demonstrations included.)
\<close>

theorem model_call_failure_returns_empty:
  "(add_demos ''entities'' examples (entities_params input_data node_types require_type) = Inr ps
      \<longrightarrow> dspy (entities_signature is_conversation node_types) ps = Inl e
      \<longrightarrow> get_entities dspy input_data is_conversation node_types require_type examples
            = ([ExtractionFailed e], Inr ([], None)))
   \<and> (add_demos ''relations'' examples
         (relations_params input_data entities edge_types require_type) = Inr ps'
      \<longrightarrow> dspy (relations_signature is_conversation edge_types) ps' = Inl e'
      \<longrightarrow> get_relations dspy input_data entities is_conversation edge_types require_type examples
            = ([ExtractionFailed e'], Inr ([], None)))"
  by (simp add: get_entities_def get_relations_def)

theorem model_call_failure_returns_empty_witness:
  "get_entities (\<lambda>sg ps. Inl (OtherException ''timeout'')) ''Alice knows Bob.'' False
     (Some [''Person'']) True None
     = ([ExtractionFailed (OtherException ''timeout'')], Inr ([], None))
   \<and> get_relations (\<lambda>sg ps. Inl (OtherException ''timeout'')) ''Alice knows Bob.''
       [PStr ''Alice'', PStr ''Bob''] False (Some [''knows'']) True None
     = ([ExtractionFailed (OtherException ''timeout'')], Inr ([], None))"
  using model_call_failure_returns_empty
    [of "None" "''Alice knows Bob.''" "Some [''Person'']" True
        "[(''source_text'', Value (PStr ''Alice knows Bob.'')),
          (''node_types'', Value (PList [PStr ''Person''])),
          (''require_type'', Value (PBool True))]"
        "\<lambda>sg ps. Inl (OtherException ''timeout'')" False "OtherException ''timeout''"
        "[PStr ''Alice'', PStr ''Bob'']" "Some [''knows'']"
        "[(''source_text'', Value (PStr ''Alice knows Bob.'')),
          (''entities'', Value (PList [PStr ''Alice'', PStr ''Bob''])),
          (''edge_types'', Value (PList [PStr ''knows''])),
          (''require_type'', Value (PBool True))]"
        "OtherException ''timeout''"]
  by (simp add: entities_params_def relations_params_def)

text \<open>
  C3. Whenever \<open>get_entities\<close> returns an entity-to-type dictionary (the typed path, after
  a successful model call), every key of the dictionary is an element of the returned
  entity list.
\<close>

theorem entity_type_keys_in_entities:
  assumes "get_entities dspy input_data is_conversation node_types require_node_type examples
             = (ws, Inr (entities, Some entity_types))"
    and "(k, t) \<in> set entity_types"
  shows "k \<in> set entities"
proof -
  from assms(1) obtain items ws' where
    "entities_loop items [] [] [] = (ws', Inr (entities, entity_types))"
    by (auto simp: get_entities_def split: sum.splits prod.splits if_splits)
  then have "fst ` set entity_types \<subseteq> set entities"
    by (rule entities_loop_keys) simp
  with assms(2) show ?thesis by force
qed

theorem entity_type_keys_in_entities_witness:
  "get_entities
     (\<lambda>sg ps. Inr [PDict [(''entity'', PStr ''Bob''), (''type'', PStr ''Person'')],
                   PDict [(''entity'', PStr ''Acme'')],
                   PDict [(''entity'', PStr ''Bob''), (''type'', PStr ''Employee'')]])
     ''Bob works at Acme.'' False (Some [''Person'', ''Employee'']) False None
   = ([], Inr ([PStr ''Bob'', PStr ''Acme'', PStr ''Bob''],
               Some [(PStr ''Bob'', PStr ''Employee'')]))
   \<and> PStr ''Bob'' \<in> set [PStr ''Bob'', PStr ''Acme'', PStr ''Bob'']"
proof -
  have run: "get_entities
     (\<lambda>sg ps. Inr [PDict [(''entity'', PStr ''Bob''), (''type'', PStr ''Person'')],
                   PDict [(''entity'', PStr ''Acme'')],
                   PDict [(''entity'', PStr ''Bob''), (''type'', PStr ''Employee'')]])
     ''Bob works at Acme.'' False (Some [''Person'', ''Employee'']) False None
   = ([], Inr ([PStr ''Bob'', PStr ''Acme'', PStr ''Bob''],
               Some [(PStr ''Bob'', PStr ''Employee'')]))"
    by (simp add: get_entities_def entities_params_def entities_signature_def setitem_def)
  have mem: "(PStr ''Bob'', PStr ''Employee'') \<in> set [(PStr ''Bob'', PStr ''Employee'')]"
    by simp
  from entity_type_keys_in_entities [OF run mem] run show ?thesis
    by blast
qed

text \<open>
  C4. In the typed path, an item without the key \<open>entity\<close> is skipped and the following
  items are still processed, but no warning is issued for it: the lookup raises
  \<open>KeyError\<close>, which only the silent handler catches. Here the first item is dropped, the
  second is kept, and the log of warnings is empty.
\<close>

theorem missing_entity_skipped_silently:
  "get_entities
     (\<lambda>sg ps. Inr [PDict [(''type'', PStr ''Person'')],
                   PDict [(''entity'', PStr ''Alice''), (''type'', PStr ''Person'')]])
     input_data is_conversation (Some [''Person'']) require_node_type None
   = ([], Inr ([PStr ''Alice''], Some [(PStr ''Alice'', PStr ''Person'')]))"
  by (simp add: get_entities_def entities_params_def entities_signature_def setitem_def)

text \<open>
  C6. With \<open>node_types = ["Person"]\<close> and \<open>require_node_type = True\<close>, when the model
  returns the items \<open>{"entity": "Alice", "type": "Person"}\<close> and \<open>{"entity": "XYZ"}\<close>, the
  function returns the entity list \<open>["Alice", "XYZ"]\<close> and the type mapping
  \<open>{"Alice": "Person"}\<close>: the entity without a type is kept.
\<close>

theorem typed_example_scenario:
  assumes "dspy (entities_signature is_conversation (Some [''Person'']))
             (entities_params input_data (Some [''Person'']) True)
           = Inr [PDict [(''entity'', PStr ''Alice''), (''type'', PStr ''Person'')],
                  PDict [(''entity'', PStr ''XYZ'')]]"
  shows "get_entities dspy input_data is_conversation (Some [''Person'']) True None
         = ([], Inr ([PStr ''Alice'', PStr ''XYZ''], Some [(PStr ''Alice'', PStr ''Person'')]))"
  using assms by (simp add: get_entities_def setitem_def)

theorem typed_example_scenario_witness:
  "get_entities
     (\<lambda>sg ps. Inr [PDict [(''entity'', PStr ''Alice''), (''type'', PStr ''Person'')],
                   PDict [(''entity'', PStr ''XYZ'')]])
     ''Alice founded XYZ.'' False (Some [''Person'']) True None
   = ([], Inr ([PStr ''Alice'', PStr ''XYZ''], Some [(PStr ''Alice'', PStr ''Person'')]))"
  using typed_example_scenario
    [of "\<lambda>sg ps. Inr [PDict [(''entity'', PStr ''Alice''), (''type'', PStr ''Person'')],
                        PDict [(''entity'', PStr ''XYZ'')]]" False "''Alice founded XYZ.''"]
  by simp

text \<open>
  C8. Called without \<open>node_types\<close>, when the model call succeeds, \<open>get_entities\<close> returns
  the model's list exactly as it came, whatever its items are, with \<open>None\<close> as type mapping
  and without any warning.
\<close>

theorem untyped_entities_returned_raw:
  assumes "add_demos ''entities'' examples (entities_params input_data None require_node_type)
             = Inr ps"
    and "dspy (entities_signature is_conversation None) ps = Inr result_entities"
  shows "get_entities dspy input_data is_conversation None require_node_type examples
         = ([], Inr (result_entities, None))"
  using assms by (simp add: get_entities_def)

theorem untyped_entities_returned_raw_witness:
  "get_entities (\<lambda>sg ps. Inr [PDict [(''name'', PStr ''Alice'')], PStr ''Bob'', PInt 7, PNone])
     ''Alice and Bob'' True None True None
   = ([], Inr ([PDict [(''name'', PStr ''Alice'')], PStr ''Bob'', PInt 7, PNone], None))"
  using untyped_entities_returned_raw
    [of "None" "''Alice and Bob''" True "[(''source_text'', Value (PStr ''Alice and Bob''))]"
        "\<lambda>sg ps. Inr [PDict [(''name'', PStr ''Alice'')], PStr ''Bob'', PInt 7, PNone]" True
        "[PDict [(''name'', PStr ''Alice'')], PStr ''Bob'', PInt 7, PNone]"]
  by (simp add: entities_params_def)




text \<open>
  C7. Whenever \<open>get_relations\<close> returns a predicate-to-type dictionary, each of its
  entries \<open>(p, t)\<close> stems from an item returned by the model that validates as a typed
  relation with predicate \<open>p\<close> and non-empty predicate type \<open>t\<close>, whose subject and object
  are in the entity list, and whose triple is in the returned relation list.
\<close>

theorem edge_type_keys_from_kept_typed_relations:
  assumes "get_relations dspy input_data entities is_conversation edge_types
             require_edge_type examples = (ws, Inr (relations, Some edge_type_map))"
    and "(p, t) \<in> set edge_type_map"
  shows "\<exists>ps items item rel.
           add_demos ''relations'' examples
             (relations_params input_data entities edge_types require_edge_type) = Inr ps
           \<and> dspy (relations_signature is_conversation edge_types) ps = Inr items
           \<and> item \<in> set items
           \<and> RelationWithType item = Inr rel
           \<and> predicate rel = p \<and> predicate_type rel = Some t \<and> t \<noteq> []
           \<and> PStr (subject rel) \<in> set entities \<and> PStr (object rel) \<in> set entities
           \<and> (subject rel, p, object rel) \<in> set relations"
proof -
  from get_relations_returns [OF assms(1)] obtain ps items where
    ps: "add_demos ''relations'' examples
           (relations_params input_data entities edge_types require_edge_type) = Inr ps"
    and items: "dspy (relations_signature is_conversation edge_types) ps = Inr items"
    and loop: "relations_loop (types_given edge_types) entities items [] [] []
                 = (relations, edge_type_map, ws)"
    by (auto split: if_splits)
  from relations_loop_types [OF loop assms(2)] obtain item rel where
    typed: "types_given edge_types" and item: "item \<in> set items"
    and rel: "model_validate (types_given edge_types) item = Inr rel"
    and p: "predicate rel = p" "predicate_type rel = Some t" "t \<noteq> []"
    and mem: "PStr (subject rel) \<in> set entities" "PStr (object rel) \<in> set entities"
    by auto
  from loop have "relations = fst (relations_loop (types_given edge_types) entities items [] [] [])"
    by simp
  with item rel mem p have "(subject rel, p, object rel) \<in> set relations"
    unfolding relations_loop_relations by force
  moreover from typed rel have "RelationWithType item = Inr rel"
    by (simp add: model_validate_def)
  ultimately show ?thesis using ps items item p mem by blast
qed

theorem edge_type_keys_from_kept_typed_relations_witness:
  "get_relations
     (\<lambda>sg ps. Inr [PDict [(''subject'', PStr ''Alice''), (''predicate'', PStr ''knows''),
                          (''object'', PStr ''Bob''), (''predicate_type'', PStr ''social'')],
                   PDict [(''subject'', PStr ''Alice''), (''predicate'', PStr ''likes''),
                          (''object'', PStr ''Carol''), (''predicate_type'', PStr ''social'')],
                   PDict [(''subject'', PStr ''Bob''), (''predicate'', PStr ''sees''),
                          (''object'', PStr ''Alice'')]])
     ''text'' [PStr ''Alice'', PStr ''Bob''] False (Some [''social'']) True None
   = ([], Inr ([(''Alice'', ''knows'', ''Bob''), (''Bob'', ''sees'', ''Alice'')],
               Some [(''knows'', ''social'')]))
   \<and> (\<exists>item rel.
         item \<in> set [PDict [(''subject'', PStr ''Alice''), (''predicate'', PStr ''knows''),
                          (''object'', PStr ''Bob''), (''predicate_type'', PStr ''social'')],
                   PDict [(''subject'', PStr ''Alice''), (''predicate'', PStr ''likes''),
                          (''object'', PStr ''Carol''), (''predicate_type'', PStr ''social'')],
                   PDict [(''subject'', PStr ''Bob''), (''predicate'', PStr ''sees''),
                          (''object'', PStr ''Alice'')]]
         \<and> RelationWithType item = Inr rel
         \<and> predicate rel = ''knows'' \<and> predicate_type rel = Some ''social''
         \<and> (subject rel, ''knows'', object rel)
             \<in> set [(''Alice'', ''knows'', ''Bob''), (''Bob'', ''sees'', ''Alice'')])"
proof -
  have run: "get_relations
     (\<lambda>sg ps. Inr [PDict [(''subject'', PStr ''Alice''), (''predicate'', PStr ''knows''),
                          (''object'', PStr ''Bob''), (''predicate_type'', PStr ''social'')],
                   PDict [(''subject'', PStr ''Alice''), (''predicate'', PStr ''likes''),
                          (''object'', PStr ''Carol''), (''predicate_type'', PStr ''social'')],
                   PDict [(''subject'', PStr ''Bob''), (''predicate'', PStr ''sees''),
                          (''object'', PStr ''Alice'')]])
     ''text'' [PStr ''Alice'', PStr ''Bob''] False (Some [''social'']) True None
   = ([], Inr ([(''Alice'', ''knows'', ''Bob''), (''Bob'', ''sees'', ''Alice'')],
               Some [(''knows'', ''social'')]))"
    by (simp add: get_relations_def relations_params_def relations_signature_def
          model_validate_def required_str_def optional_str_def)
  have mem: "(''knows'', ''social'') \<in> set [(''knows'', ''social'')]"
    by simp
  from edge_type_keys_from_kept_typed_relations [OF run mem] run show ?thesis
    by blast
qed

text \<open>
  C9. An empty list for \<open>node_types\<close> or \<open>edge_types\<close> behaves exactly like \<open>None\<close>: both
  functions give the same result, the untyped schema is selected, the parameters hold no
  type list and no require flag, and no type dictionary is returned.
\<close>

theorem empty_type_list_behaves_like_None:
  "get_entities dspy input_data is_conversation (Some []) require_type examples
     = get_entities dspy input_data is_conversation None require_type examples
   \<and> get_relations dspy input_data entities is_conversation (Some []) require_type examples
     = get_relations dspy input_data entities is_conversation None require_type examples
   \<and> entities_signature is_conversation (Some [])
     = (if is_conversation then ConversationEntities else TextEntities)
   \<and> relations_signature is_conversation (Some [])
     = (if is_conversation then ExtractConversationRelations else ExtractTextRelations)
   \<and> entities_params input_data (Some []) require_type
     = [(''source_text'', Value (PStr input_data))]
   \<and> relations_params input_data entities (Some []) require_type
     = [(''source_text'', Value (PStr input_data)), (''entities'', Value (PList entities))]
   \<and> snd (get_entities dspy input_data is_conversation (Some []) require_type examples)
     \<noteq> Inr (es, Some entity_types)
   \<and> snd (get_relations dspy input_data entities is_conversation (Some []) require_type examples)
     \<noteq> Inr (rs, Some edge_type_map)"
  by (auto simp: get_entities_def get_relations_def entities_signature_def
        relations_signature_def entities_params_def relations_params_def
      split: sum.splits prod.splits)

theorem empty_type_list_behaves_like_None_witness:
  "get_entities (\<lambda>sg ps. if sg = TextEntities then Inr [PStr ''Alice''] else Inl TypeError)
     ''Alice'' False (Some []) True None
   = ([], Inr ([PStr ''Alice''], None))
   \<and> get_relations
       (\<lambda>sg ps. if sg = ExtractTextRelations
                 then Inr [PDict [(''subject'', PStr ''Alice''), (''predicate'', PStr ''is''),
                                  (''object'', PStr ''Alice''), (''predicate_type'', PStr ''t'')]]
                 else Inl TypeError)
       ''Alice'' [PStr ''Alice''] False (Some []) True None
   = ([], Inr ([(''Alice'', ''is'', ''Alice'')], None))"
proof -
  have "get_entities (\<lambda>sg ps. if sg = TextEntities then Inr [PStr ''Alice''] else Inl TypeError)
     ''Alice'' False None True None
   = ([], Inr ([PStr ''Alice''], None))"
    by (simp add: get_entities_def entities_signature_def entities_params_def)
  moreover have "get_relations
       (\<lambda>sg ps. if sg = ExtractTextRelations
                 then Inr [PDict [(''subject'', PStr ''Alice''), (''predicate'', PStr ''is''),
                                  (''object'', PStr ''Alice''), (''predicate_type'', PStr ''t'')]]
                 else Inl TypeError)
       ''Alice'' [PStr ''Alice''] False None True None
   = ([], Inr ([(''Alice'', ''is'', ''Alice'')], None))"
    by (simp add: get_relations_def relations_signature_def relations_params_def
          model_validate_def required_str_def)
  ultimately show ?thesis
    by (simp only: empty_type_list_behaves_like_None)
qed

text \<open>
  C10. Whenever \<open>get_relations\<close> returns, the predicate-to-type mapping is \<open>None\<close> exactly
  when \<open>edge_types\<close> is absent or empty, or the model call raised; and with non-empty
  \<open>edge_types\<close> and a successful model call the function returns a dictionary.
\<close>

theorem edge_type_map_None_iff:
  "(get_relations dspy input_data entities is_conversation edge_types require_edge_type examples
      = (ws, Inr (relations, edge_type_map))
    \<longrightarrow> (edge_type_map = None) =
         (\<not> types_given edge_types \<or>
          (\<exists>ps e. add_demos ''relations'' examples
                     (relations_params input_data entities edge_types require_edge_type) = Inr ps
                   \<and> dspy (relations_signature is_conversation edge_types) ps = Inl e)))
   \<and> (types_given edge_types
      \<longrightarrow> add_demos ''relations'' examples
            (relations_params input_data entities edge_types require_edge_type) = Inr ps'
      \<longrightarrow> dspy (relations_signature is_conversation edge_types) ps' = Inr items
      \<longrightarrow> (\<exists>ws' relations' m.
             get_relations dspy input_data entities is_conversation edge_types
               require_edge_type examples = (ws', Inr (relations', Some m))))"
proof (intro conjI impI)
  assume run: "get_relations dspy input_data entities is_conversation edge_types
                 require_edge_type examples = (ws, Inr (relations, edge_type_map))"
  from get_relations_returns [OF run]
  show "(edge_type_map = None) =
         (\<not> types_given edge_types \<or>
          (\<exists>ps e. add_demos ''relations'' examples
                     (relations_params input_data entities edge_types require_edge_type) = Inr ps
                   \<and> dspy (relations_signature is_conversation edge_types) ps = Inl e))"
    by (elim disjE exE conjE) (auto split: if_splits)
next
  assume "types_given edge_types"
    and "add_demos ''relations'' examples
           (relations_params input_data entities edge_types require_edge_type) = Inr ps'"
    and "dspy (relations_signature is_conversation edge_types) ps' = Inr items"
  then show "\<exists>ws' relations' m.
             get_relations dspy input_data entities is_conversation edge_types
               require_edge_type examples = (ws', Inr (relations', Some m))"
    by (simp add: get_relations_def split: prod.splits)
qed

theorem edge_type_map_None_iff_witness:
  "get_relations (\<lambda>sg ps. Inr [PDict [(''subject'', PStr ''Bob''), (''predicate'', PStr ''knows''), (''object'', PStr ''Alice'')]]) ''text'' [PStr ''Alice''] True
     (Some [''social'']) False None
   = ([], Inr ([], Some []))
   \<and> types_given (Some [''social''])
   \<and> (\<exists>ws' relations' m.
        get_relations (\<lambda>sg ps. Inr [PDict [(''subject'', PStr ''Bob''), (''predicate'', PStr ''knows''), (''object'', PStr ''Alice'')]]) ''text'' [PStr ''Alice''] True
          (Some [''social'']) False None = (ws', Inr (relations', Some m)))"
proof -
  have run: "get_relations (\<lambda>sg ps. Inr [PDict [(''subject'', PStr ''Bob''), (''predicate'', PStr ''knows''), (''object'', PStr ''Alice'')]]) ''text'' [PStr ''Alice''] True
     (Some [''social'']) False None
   = ([], Inr ([], Some []))"
    by (simp add: get_relations_def relations_signature_def relations_params_def
          model_validate_def required_str_def optional_str_def)
  have typed: "types_given (Some [''social''])"
    by simp
  have ps: "add_demos ''relations'' None
              (relations_params ''text'' [PStr ''Alice''] (Some [''social'']) False)
            = Inr [(''source_text'', Value (PStr ''text'')),
                   (''entities'', Value (PList [PStr ''Alice''])),
                   (''edge_types'', Value (PList [PStr ''social''])),
                   (''require_type'', Value (PBool False))]"
    by (simp add: relations_params_def)
  have call: "(\<lambda>sg ps. Inr [PDict [(''subject'', PStr ''Bob''), (''predicate'', PStr ''knows''), (''object'', PStr ''Alice'')]]) (relations_signature True (Some [''social'']))
                [(''source_text'', Value (PStr ''text'')),
                   (''entities'', Value (PList [PStr ''Alice''])),
                   (''edge_types'', Value (PList [PStr ''social''])),
                   (''require_type'', Value (PBool False))]
              = (Inr [PDict [(''subject'', PStr ''Bob''), (''predicate'', PStr ''knows''), (''object'', PStr ''Alice'')]] :: pyexn + pyval list)"
    by simp
  from edge_type_map_None_iff
    [of "\<lambda>sg ps. Inr [PDict [(''subject'', PStr ''Bob''), (''predicate'', PStr ''knows''), (''object'', PStr ''Alice'')]]" "''text''" "[PStr ''Alice'']" True "Some [''social'']"
        False None, THEN conjunct2, rule_format, OF typed ps call]
    run typed
  show ?thesis by blast
qed

end
